theory Spec2Isabelle
  imports Complex_Main "HOL-Library.Sublist"
begin

section \<open>Conventions of the embedding\<close>

text \<open>
  The theory embeds the ingestion and query paths of the service:
  \<^verbatim>\<open>document_processor.py\<close> (\<^verbatim>\<open>DocumentProcessor\<close>), \<^verbatim>\<open>rag_system.py\<close>
  (\<^verbatim>\<open>RAGSystem.get_relevant_chunks\<close>, \<^verbatim>\<open>generate_response\<close>), \<^verbatim>\<open>database.py\<close> (the four
  tables) and \<^verbatim>\<open>main.py\<close> (\<^verbatim>\<open>upload_documents\<close>, \<^verbatim>\<open>query_documents\<close>).

  \<^item> A Python \<^verbatim>\<open>str\<close> is a \<open>string\<close>; a character stands for a code point below 256.
    \<^verbatim>\<open>bytes\<close> is a \<open>string\<close> as well.
  \<^item> A raised exception is a value of \<open>exn\<close>; a function that may raise returns
    \<open>exn + 'a\<close>. \<^verbatim>\<open>print\<close> is dropped.
  \<^item> Libraries outside the repository (the text splitter, the PDF and DOCX readers, the
    embedding model, the language model, \<^verbatim>\<open>uuid.UUID\<close>, the distance operator of the
    vector extension, the clock) are fields of the record \<open>env\<close>: every definition and
    theorem holds for any behaviour of theirs. A library call that raises returns
    \<open>Inl\<close> of the message \<^verbatim>\<open>str(e)\<close>.
  \<^item> The database is a record of four row lists in insertion order. A SQLAlchemy
    session is the committed store plus the list of pending changes; \<^verbatim>\<open>commit\<close> applies
    them, closing the session at the end of a request drops them
    (\<^verbatim>\<open>autoflush=False\<close>, so a query never writes them).
  \<^item> \<^verbatim>\<open>uuid.uuid4()\<close> primary keys are drawn from a counter kept with the store.
  \<^item> Distances and scores are real numbers; the dimension of a vector is not checked,
    and every stored chunk has an embedding, as every upload gives it one.
  \<^item> The database server answers every statement; the failures of a statement that are
    modelled are the ones its text and its parameters can cause.
\<close>

type_synonym uuid = nat
type_synonym bytes = string

datatype exn =
    HTTPException nat string
  | ValueError string
  | Exception string
  | DBAPIError string

definition nl :: string where
  "nl = [CHR 0x0A]"

text \<open>\<^verbatim>\<open>str.isspace\<close> on the code points below 256, and \<^verbatim>\<open>str.strip()\<close>.\<close>

definition isspace :: "char \<Rightarrow> bool" where
  "isspace c = (of_char c \<in> {9, 10, 11, 12, 13, 28, 29, 30, 31, 32, 133, 160 :: nat})"

definition strip :: "string \<Rightarrow> string" where
  "strip s = rev (dropWhile isspace (rev (dropWhile isspace s)))"

text \<open>\<^verbatim>\<open>str(n)\<close> for a non-negative integer, as the f-strings print counts.\<close>

fun str_nat :: "nat \<Rightarrow> string" where
  "str_nat n =
     (if n < 10 then [char_of (48 + n)]
      else str_nat (n div 10) @ [char_of (48 + n mod 10)])"

declare str_nat.simps [simp del]

section \<open>Data model (\<^verbatim>\<open>database.py\<close>)\<close>

record Chat =
  chat_id :: uuid
  chat_title :: string
  chat_created_at :: nat
  chat_updated_at :: nat

record ChatMessage =
  msg_id :: uuid
  msg_chat_id :: uuid
  msg_message :: string
  msg_response :: string
  msg_timestamp :: nat

record Document =
  doc_id :: uuid
  doc_chat_id :: uuid
  doc_filename :: string
  doc_content :: string
  doc_upload_date :: nat

record DocumentChunk =
  dc_id :: uuid
  dc_chat_id :: uuid
  dc_document_id :: uuid
  dc_chunk_text :: string
  dc_chunk_index :: nat
  dc_embedding :: "real list"

record database =
  chats :: "Chat list"
  chat_messages :: "ChatMessage list"
  documents :: "Document list"
  document_chunks :: "DocumentChunk list"
  next_uuid :: uuid

section \<open>External collaborators\<close>

record RecursiveCharacterTextSplitter =
  ts_chunk_size :: int
  ts_chunk_overlap :: int
  ts_separators :: "string list"

record env =
  split_text :: "RecursiveCharacterTextSplitter \<Rightarrow> string \<Rightarrow> string + string list"
  PdfReader_pages :: "bytes \<Rightarrow> string + string list"
  docx_paragraphs :: "bytes \<Rightarrow> string + string list"
  decode_utf8 :: "bytes \<Rightarrow> string + string"
  model_encode :: "string \<Rightarrow> string + real list"
  client_chat :: "string \<Rightarrow> string + string"
  uuid_UUID :: "string \<Rightarrow> uuid option"
  pg_uuid_in :: "string \<Rightarrow> uuid option"
  vector_distance :: "real list \<Rightarrow> real list \<Rightarrow> real"
  vector_available :: bool
  utcnow :: nat
  http_exception_str :: "nat \<Rightarrow> string \<Rightarrow> string"

text \<open>
  \<open>split_text\<close> is \<^verbatim>\<open>RecursiveCharacterTextSplitter.split_text\<close>; \<open>PdfReader_pages\<close> gives
  \<^verbatim>\<open>page.extract_text()\<close> of every page, \<open>docx_paragraphs\<close> gives \<^verbatim>\<open>paragraph.text\<close> of
  every paragraph; \<open>model_encode\<close> is \<^verbatim>\<open>SentenceTransformer.encode\<close>; \<open>client_chat\<close> maps
  the prompt to \<^verbatim>\<open>response['message']['content']\<close>; \<open>uuid_UUID\<close> is Python's reader of a
  UUID string (\<open>None\<close>: \<^verbatim>\<open>ValueError\<close>) and \<open>pg_uuid_in\<close> the database server's;
  \<open>vector_distance\<close> is the operator \<^verbatim>\<open><->\<close>; \<open>vector_available\<close> tells whether a
  statement that uses that operator can run at all; \<open>http_exception_str\<close> is
  \<^verbatim>\<open>str\<close> of an \<^verbatim>\<open>HTTPException\<close>.
\<close>

fun exn_str :: "env \<Rightarrow> exn \<Rightarrow> string" where
  "exn_str env (HTTPException code detail) = http_exception_str env code detail"
| "exn_str env (ValueError m) = m"
| "exn_str env (Exception m) = m"
| "exn_str env (DBAPIError m) = m"

section \<open>\<^verbatim>\<open>document_processor.py\<close>\<close>

record DocumentProcessor =
  chunk_size :: int
  chunk_overlap :: int
  text_splitter :: RecursiveCharacterTextSplitter

definition DocumentProcessor_init :: "int \<Rightarrow> int \<Rightarrow> DocumentProcessor" where
  "DocumentProcessor_init cs co =
     \<lparr>chunk_size = cs, chunk_overlap = co,
      text_splitter = \<lparr>ts_chunk_size = cs, ts_chunk_overlap = co,
                       ts_separators = [nl @ nl, nl, ''. '', '' '', '''']\<rparr>\<rparr>"

definition process_pdf :: "env \<Rightarrow> bytes \<Rightarrow> exn + string" where
  "process_pdf env file_content =
     (case PdfReader_pages env file_content of
        Inl m \<Rightarrow> Inl (Exception (''Error processing PDF: '' @ m))
      | Inr pages \<Rightarrow> Inr (strip (foldl (\<lambda>text page. text @ page @ nl) [] pages)))"

definition process_docx :: "env \<Rightarrow> bytes \<Rightarrow> exn + string" where
  "process_docx env file_content =
     (case docx_paragraphs env file_content of
        Inl m \<Rightarrow> Inl (Exception (''Error processing DOCX: '' @ m))
      | Inr paragraphs \<Rightarrow>
          Inr (strip (foldl (\<lambda>text paragraph. text @ paragraph @ nl) [] paragraphs)))"

definition chunk_text :: "env \<Rightarrow> DocumentProcessor \<Rightarrow> string \<Rightarrow> exn + string list" where
  "chunk_text env self text =
     (case split_text env (text_splitter self) text of
        Inl m \<Rightarrow> Inl (Exception (''Error chunking text: '' @ m))
      | Inr chunks \<Rightarrow> Inr (filter (\<lambda>chunk. 50 < length (strip chunk)) chunks))"

section \<open>The session\<close>

datatype pending_change =
    AddDocument Document
  | AddChunk DocumentChunk
  | AddMessage ChatMessage
  | SetChatUpdatedAt uuid nat

record session =
  store :: database
  pending :: "pending_change list"

definition new_session :: "database \<Rightarrow> session" where
  "new_session db = \<lparr>store = db, pending = []\<rparr>"

text \<open>Taking the next primary key.\<close>

definition uuid4 :: "session \<Rightarrow> uuid \<times> session" where
  "uuid4 s = (next_uuid (store s), s\<lparr>store := (store s)\<lparr>next_uuid := Suc (next_uuid (store s))\<rparr>\<rparr>)"

definition db_add :: "session \<Rightarrow> pending_change \<Rightarrow> session" where
  "db_add s ch = s\<lparr>pending := pending s @ [ch]\<rparr>"

text \<open>An attribute assignment on the first row with the given key.\<close>

fun set_updated_at :: "uuid \<Rightarrow> nat \<Rightarrow> Chat list \<Rightarrow> Chat list" where
  "set_updated_at cid t [] = []"
| "set_updated_at cid t (c # cs) =
     (if chat_id c = cid then c\<lparr>chat_updated_at := t\<rparr> # cs else c # set_updated_at cid t cs)"

text \<open>
  Writing one pending change. The column \<^verbatim>\<open>filename = Column(String(255))\<close> refuses a
  longer value.
\<close>

fun flush_change :: "database \<Rightarrow> pending_change \<Rightarrow> exn + database" where
  "flush_change db (AddDocument d) =
     (if 255 < length (doc_filename d)
      then Inl (DBAPIError ''value too long for type character varying(255)'')
      else Inr (db\<lparr>documents := documents db @ [d]\<rparr>))"
| "flush_change db (AddChunk c) = Inr (db\<lparr>document_chunks := document_chunks db @ [c]\<rparr>)"
| "flush_change db (AddMessage m) = Inr (db\<lparr>chat_messages := chat_messages db @ [m]\<rparr>)"
| "flush_change db (SetChatUpdatedAt cid t) = Inr (db\<lparr>chats := set_updated_at cid t (chats db)\<rparr>)"

fun flush_all :: "database \<Rightarrow> pending_change list \<Rightarrow> exn + database" where
  "flush_all db [] = Inr db"
| "flush_all db (ch # chs) =
     (case flush_change db ch of Inl e \<Rightarrow> Inl e | Inr db' \<Rightarrow> flush_all db' chs)"

text \<open>\<^verbatim>\<open>db.commit()\<close>: all pending changes are written, or the store stays as it was.\<close>

definition db_commit :: "session \<Rightarrow> exn + session" where
  "db_commit s =
     (case flush_all (store s) (pending s) of
        Inl e \<Rightarrow> Inl e
      | Inr db' \<Rightarrow> Inr \<lparr>store = db', pending = []\<rparr>)"

section \<open>\<^verbatim>\<open>rag_system.py\<close>\<close>

record RelevantChunk =
  rc_text :: string
  rc_chunk_index :: nat
  rc_filename :: string
  rc_similarity_score :: real

record SimilarityRow =
  row_chunk_text :: string
  row_chunk_index :: nat
  row_filename :: string
  row_distance :: real

definition get_embedding :: "env \<Rightarrow> string \<Rightarrow> exn + real list" where
  "get_embedding env text =
     (case model_encode env text of Inl m \<Rightarrow> Inl (Exception m) | Inr embedding \<Rightarrow> Inr embedding)"

text \<open>
  \<^verbatim>\<open>FROM document_chunks dc JOIN documents d ON dc.document_id = d.id
  WHERE dc.chat_id = :chat_id\<close>
\<close>

definition joined_rows :: "database \<Rightarrow> uuid \<Rightarrow> (DocumentChunk \<times> Document) list" where
  "joined_rows db cid =
     concat (map (\<lambda>dc. map (\<lambda>d. (dc, d)) (filter (\<lambda>d. dc_document_id dc = doc_id d) (documents db)))
                 (filter (\<lambda>dc. dc_chat_id dc = cid) (document_chunks db)))"

definition select_row :: "env \<Rightarrow> real list \<Rightarrow> DocumentChunk \<times> Document \<Rightarrow> SimilarityRow" where
  "select_row env query_embedding r =
     \<lparr>row_chunk_text = dc_chunk_text (fst r), row_chunk_index = dc_chunk_index (fst r),
      row_filename = doc_filename (snd r),
      row_distance = vector_distance env (dc_embedding (fst r)) query_embedding\<rparr>"

text \<open>
  The statement \<^verbatim>\<open>similarity_query\<close> run by \<^verbatim>\<open>db.execute\<close>:
  \<^verbatim>\<open>ORDER BY dc.embedding <-> :query_embedding LIMIT :limit\<close>. Rows at the same distance
  keep their order here; the server may return them in any order.
\<close>

definition similarity_query ::
  "env \<Rightarrow> database \<Rightarrow> real list \<Rightarrow> string \<Rightarrow> int \<Rightarrow> exn + SimilarityRow list" where
  "similarity_query env db query_embedding chat_id_str top_k =
     (if \<not> vector_available env then Inl (DBAPIError ''operator does not exist: vector <-> unknown'')
      else case pg_uuid_in env chat_id_str of
        None \<Rightarrow> Inl (DBAPIError ''invalid input syntax for type uuid'')
      | Some cid \<Rightarrow>
          if top_k < 0 then Inl (DBAPIError ''LIMIT must not be negative'')
          else Inr (take (nat top_k)
                 (sort_key row_distance (map (select_row env query_embedding) (joined_rows db cid)))))"

definition relevant_of_row :: "SimilarityRow \<Rightarrow> RelevantChunk" where
  "relevant_of_row row =
     \<lparr>rc_text = row_chunk_text row, rc_chunk_index = row_chunk_index row,
      rc_filename = row_filename row, rc_similarity_score = 1 - row_distance row\<rparr>"

text \<open>The \<^verbatim>\<open>try\<close> block of \<^verbatim>\<open>get_relevant_chunks\<close>.\<close>

definition similarity_search ::
  "env \<Rightarrow> string \<Rightarrow> string \<Rightarrow> database \<Rightarrow> int \<Rightarrow> exn + RelevantChunk list" where
  "similarity_search env query chat_id_str db top_k =
     (case get_embedding env query of
        Inl e \<Rightarrow> Inl e
      | Inr query_embedding \<Rightarrow>
          (case similarity_query env db query_embedding chat_id_str top_k of
             Inl e \<Rightarrow> Inl e
           | Inr result \<Rightarrow> Inr (map relevant_of_row result)))"

definition relevant_of_chunk :: "DocumentChunk \<Rightarrow> RelevantChunk" where
  "relevant_of_chunk chunk =
     \<lparr>rc_text = dc_chunk_text chunk, rc_chunk_index = dc_chunk_index chunk,
      rc_filename = ''unknown'', rc_similarity_score = 1 / 2\<rparr>"

text \<open>
  The \<^verbatim>\<open>except\<close> block of \<^verbatim>\<open>get_relevant_chunks\<close>. The query has no \<^verbatim>\<open>ORDER BY\<close>: the
  server may return any \<^verbatim>\<open>top_k\<close> chunks of the chat, here they are the first ones of the
  table.
\<close>

definition fallback_chunks :: "env \<Rightarrow> string \<Rightarrow> database \<Rightarrow> int \<Rightarrow> exn + RelevantChunk list" where
  "fallback_chunks env chat_id_str db top_k =
     (case uuid_UUID env chat_id_str of
        None \<Rightarrow> Inl (ValueError ''badly formed hexadecimal UUID string'')
      | Some cid \<Rightarrow>
          if top_k < 0 then Inl (DBAPIError ''LIMIT must not be negative'')
          else Inr (map relevant_of_chunk
                 (take (nat top_k) (filter (\<lambda>dc. dc_chat_id dc = cid) (document_chunks db)))))"

definition get_relevant_chunks ::
  "env \<Rightarrow> string \<Rightarrow> string \<Rightarrow> database \<Rightarrow> int \<Rightarrow> exn + RelevantChunk list" where
  "get_relevant_chunks env query chat_id_str db top_k =
     (case similarity_search env query chat_id_str db top_k of
        Inr relevant_chunks \<Rightarrow> Inr relevant_chunks
      | Inl e \<Rightarrow> fallback_chunks env chat_id_str db top_k)"




section \<open>\<^verbatim>\<open>main.py\<close>: uploading documents\<close>

record UploadFile =
  filename :: string
  file_bytes :: bytes

record skipped_doc =
  skipped_filename :: string
  skipped_reason :: string

record uploaded_doc =
  uploaded_id :: uuid
  uploaded_filename :: string
  chunks_count :: nat

record upload_state =
  sess :: session
  uploaded_docs :: "uploaded_doc list"
  skipped_docs :: "skipped_doc list"

record upload_response =
  up_message :: string
  uploaded :: "uploaded_doc list"
  skipped :: "skipped_doc list"

definition doc_processor :: DocumentProcessor where
  "doc_processor = DocumentProcessor_init 1000 200"

text \<open>
  The dispatch on the file type: \<open>Inr None\<close> is the \<^verbatim>\<open>else\<close> branch (no text, the file
  is skipped), \<open>Inl\<close> an exception of the reader.
\<close>

definition extract_text :: "env \<Rightarrow> UploadFile \<Rightarrow> exn + string option" where
  "extract_text env file =
     (if suffix ''.pdf'' (filename file) then
        (case process_pdf env (file_bytes file) of Inl e \<Rightarrow> Inl e | Inr t \<Rightarrow> Inr (Some t))
      else if suffix ''.docx'' (filename file) then
        (case process_docx env (file_bytes file) of Inl e \<Rightarrow> Inl e | Inr t \<Rightarrow> Inr (Some t))
      else if suffix ''.txt'' (filename file) then
        (case decode_utf8 env (file_bytes file) of
           Inl m \<Rightarrow> Inl (ValueError m) | Inr t \<Rightarrow> Inr (Some t))
      else Inr None)"

text \<open>
  \<^verbatim>\<open>for i, chunk in enumerate(chunks)\<close>: the embedding of a chunk may raise; the chunks
  added before stay pending in the session.
\<close>

fun add_chunks ::
  "env \<Rightarrow> uuid \<Rightarrow> uuid \<Rightarrow> nat \<Rightarrow> string list \<Rightarrow> session \<Rightarrow> exn option \<times> session" where
  "add_chunks env cid did i [] s = (None, s)"
| "add_chunks env cid did i (chunk # chunks) s =
     (case get_embedding env chunk of
        Inl e \<Rightarrow> (Some e, s)
      | Inr embedding \<Rightarrow>
          (case uuid4 s of
             (k, s1) \<Rightarrow>
               add_chunks env cid did (Suc i) chunks
                 (db_add s1 (AddChunk \<lparr>dc_id = k, dc_chat_id = cid, dc_document_id = did,
                                       dc_chunk_text = chunk, dc_chunk_index = i,
                                       dc_embedding = embedding\<rparr>))))"

text \<open>
  The body of the \<^verbatim>\<open>try\<close> of one loop iteration. \<open>Some e\<close> is the exception that leaves it,
  with the session as it is then.
\<close>

definition upload_file ::
  "env \<Rightarrow> uuid \<Rightarrow> string list \<Rightarrow> UploadFile \<Rightarrow> upload_state \<Rightarrow> exn option \<times> upload_state" where
  "upload_file env cid existing_filenames file st =
     (if filename file \<in> set existing_filenames then
        (None, st\<lparr>skipped_docs := skipped_docs st @
           [\<lparr>skipped_filename = filename file,
             skipped_reason = ''File already exists in this chat''\<rparr>]\<rparr>)
      else case extract_text env file of
        Inl e \<Rightarrow> (Some e, st)
      | Inr None \<Rightarrow>
          (None, st\<lparr>skipped_docs := skipped_docs st @
             [\<lparr>skipped_filename = filename file, skipped_reason = ''Unsupported file type''\<rparr>]\<rparr>)
      | Inr (Some text_content) \<Rightarrow>
          (case uuid4 (sess st) of
             (did, s0) \<Rightarrow>
               (case db_commit (db_add s0 (AddDocument
                        \<lparr>doc_id = did, doc_chat_id = cid, doc_filename = filename file,
                         doc_content = text_content, doc_upload_date = utcnow env\<rparr>)) of
                  Inl e \<Rightarrow>
                    (Some e, st\<lparr>sess := db_add s0 (AddDocument
                        \<lparr>doc_id = did, doc_chat_id = cid, doc_filename = filename file,
                         doc_content = text_content, doc_upload_date = utcnow env\<rparr>)\<rparr>)
                | Inr s1 \<Rightarrow>
                    (case chunk_text env doc_processor text_content of
                       Inl e \<Rightarrow> (Some e, st\<lparr>sess := s1\<rparr>)
                     | Inr chunks \<Rightarrow>
                         (case add_chunks env cid did 0 chunks s1 of
                            (Some e, s2) \<Rightarrow> (Some e, st\<lparr>sess := s2\<rparr>)
                          | (None, s2) \<Rightarrow>
                              (case db_commit s2 of
                                 Inl e \<Rightarrow> (Some e, st\<lparr>sess := s2\<rparr>)
                               | Inr s3 \<Rightarrow>
                                   (None, st\<lparr>sess := s3, uploaded_docs := uploaded_docs st @
                                      [\<lparr>uploaded_id = did, uploaded_filename = filename file,
                                        chunks_count = length chunks\<rparr>]\<rparr>)))))))"

text \<open>
  \<^verbatim>\<open>for file in files: try: ... except Exception as e: raise HTTPException(500, ...)\<close>:
  the first exception ends the loop and the request.
\<close>

fun upload_loop ::
  "env \<Rightarrow> uuid \<Rightarrow> string list \<Rightarrow> UploadFile list \<Rightarrow> upload_state \<Rightarrow> exn option \<times> upload_state" where
  "upload_loop env cid existing_filenames [] st = (None, st)"
| "upload_loop env cid existing_filenames (file # files) st =
     (case upload_file env cid existing_filenames file st of
        (Some e, st') \<Rightarrow>
          (Some (HTTPException 500
             (''Error processing '' @ filename file @ '': '' @ exn_str env e)), st')
      | (None, st') \<Rightarrow> upload_loop env cid existing_filenames files st')"

text \<open>
  The endpoint. The second component is the database once the request is over: what was
  committed, without the changes still pending when the session is closed.
\<close>

definition upload_documents ::
  "env \<Rightarrow> string \<Rightarrow> UploadFile list \<Rightarrow> database \<Rightarrow> (exn + upload_response) \<times> database" where
  "upload_documents env chat_id_str files db =
     (case uuid_UUID env chat_id_str of
        None \<Rightarrow> (Inl (ValueError ''badly formed hexadecimal UUID string''), db)
      | Some cid \<Rightarrow>
          if \<not> list_ex (\<lambda>c. chat_id c = cid) (chats db)
          then (Inl (HTTPException 404 ''Chat not found''), db)
          else
            (case upload_loop env cid
                    (map doc_filename (filter (\<lambda>d. doc_chat_id d = cid) (documents db)))
                    files \<lparr>sess = new_session db, uploaded_docs = [], skipped_docs = []\<rparr> of
               (Some e, st) \<Rightarrow> (Inl e, store (sess st))
             | (None, st) \<Rightarrow>
                 (Inr \<lparr>up_message = ''Successfully uploaded '' @ str_nat (length (uploaded_docs st))
                                     @ '' documents'',
                       uploaded = uploaded_docs st, skipped = skipped_docs st\<rparr>,
                  store (sess st))))"

section \<open>\<^verbatim>\<open>main.py\<close>: querying\<close>

record QueryRequest =
  query :: string
  request_chat_id :: string





section \<open>Instances of the collaborators for evaluation\<close>

text \<open>
  A reader of the canonical UUID text: hyphens are dropped, 32 hexadecimal digits must
  remain, and their value is the UUID.
\<close>

definition hex_digit :: "char \<Rightarrow> nat option" where
  "hex_digit c =
     (let n = (of_char c :: nat) in
      if 48 \<le> n \<and> n \<le> 57 then Some (n - 48)
      else if 97 \<le> n \<and> n \<le> 102 then Some (n - 87)
      else if 65 \<le> n \<and> n \<le> 70 then Some (n - 55)
      else None)"

fun hex_value :: "nat \<Rightarrow> string \<Rightarrow> nat option" where
  "hex_value acc [] = Some acc"
| "hex_value acc (c # cs) =
     (case hex_digit c of None \<Rightarrow> None | Some d \<Rightarrow> hex_value (16 * acc + d) cs)"

definition canonical_uuid :: "string \<Rightarrow> uuid option" where
  "canonical_uuid s =
     (let h = filter (\<lambda>c. c \<noteq> CHR ''-'') s in
      if length h \<noteq> 32 then None else hex_value 0 h)"

text \<open>The Euclidean distance, which the operator \<^verbatim>\<open><->\<close> computes.\<close>

definition l2_distance :: "real list \<Rightarrow> real list \<Rightarrow> real" where
  "l2_distance v w = sqrt (sum_list (map (\<lambda>ab. (fst ab - snd ab)\<^sup>2) (zip v w)))"

text \<open>
  On vectors of one component the Euclidean distance is the absolute difference; the
  evaluations below use such vectors, and this instance needs no square root.
\<close>

definition line_distance :: "real list \<Rightarrow> real list \<Rightarrow> real" where
  "line_distance v w = sum_list (map (\<lambda>ab. \<bar>fst ab - snd ab\<bar>) (zip v w))"

text \<open>
  What the splitter returns for a text of at most \<^verbatim>\<open>chunk_size\<close> characters: the
  stripped text as the only piece, or no piece when nothing is left. The evaluations
  below use such texts only.
\<close>

definition single_piece_splitter ::
  "RecursiveCharacterTextSplitter \<Rightarrow> string \<Rightarrow> string + string list" where
  "single_piece_splitter ts text = (if strip text = [] then Inr [] else Inr [strip text])"

text \<open>
  An environment in which everything works: a PDF reader that refuses bytes without the
  \<^verbatim>\<open>%PDF\<close> header, a decoder for ASCII bytes, an embedding of one component, both UUID
  readers the canonical one.
\<close>

definition demo_env :: env where
  "demo_env =
     \<lparr>split_text = single_piece_splitter,
      PdfReader_pages = (\<lambda>b. if prefix ''%PDF'' b then Inr [drop 4 b]
                             else Inl ''EOF marker not found''),
      docx_paragraphs = (\<lambda>b. if prefix ''PK'' b then Inr [drop 2 b]
                             else Inl ''File is not a zip file''),
      decode_utf8 = (\<lambda>b. if list_all (\<lambda>c. (of_char c :: nat) < 128) b then Inr b
                         else Inl ''invalid start byte''),
      model_encode = (\<lambda>t. Inr [real (length t)]),
      client_chat = (\<lambda>p. Inr ''The answer is in the first document.''),
      uuid_UUID = canonical_uuid,
      pg_uuid_in = canonical_uuid,
      vector_distance = line_distance,
      vector_available = True,
      utcnow = 1700000000,
      http_exception_str = (\<lambda>code detail. str_nat code @ '': '' @ detail)\<rparr>"

text \<open>The same, with an embedding model that raises on every text.\<close>

definition failing_embedding_env :: env where
  "failing_embedding_env = demo_env\<lparr>model_encode := (\<lambda>t. Inl ''CUDA out of memory'')\<rparr>"

definition chat_a :: string where
  "chat_a = ''00000000-0000-0000-0000-00000000000a''"

definition empty_db :: database where
  "empty_db =
     \<lparr>chats = [\<lparr>chat_id = 10, chat_title = ''A'', chat_created_at = 1, chat_updated_at = 1\<rparr>,
               \<lparr>chat_id = 11, chat_title = ''B'', chat_created_at = 2, chat_updated_at = 2\<rparr>],
      chat_messages = [], documents = [], document_chunks = [], next_uuid = 100\<rparr>"

definition sixty :: string where
  "sixty = replicate 60 (CHR ''x'')"

definition report_txt :: UploadFile where
  "report_txt = \<lparr>filename = ''report.txt'', file_bytes = sixty\<rparr>"

definition broken_pdf :: UploadFile where
  "broken_pdf = \<lparr>filename = ''broken.pdf'', file_bytes = ''not a pdf''\<rparr>"

definition notes_txt :: UploadFile where
  "notes_txt = \<lparr>filename = ''notes.txt'', file_bytes = replicate 70 (CHR ''y'')\<rparr>"

text \<open>
  A database with two chats: chat 10 owns the document \<^verbatim>\<open>report.txt\<close> with three chunks,
  chat 11 owns \<^verbatim>\<open>other.txt\<close> with one chunk.
\<close>

definition two_chat_db :: database where
  "two_chat_db =
     \<lparr>chats = [\<lparr>chat_id = 10, chat_title = ''A'', chat_created_at = 1, chat_updated_at = 1\<rparr>,
               \<lparr>chat_id = 11, chat_title = ''B'', chat_created_at = 2, chat_updated_at = 2\<rparr>],
      chat_messages = [],
      documents = [\<lparr>doc_id = 20, doc_chat_id = 10, doc_filename = ''report.txt'',
                    doc_content = ''alpha beta gamma'', doc_upload_date = 3\<rparr>,
                   \<lparr>doc_id = 21, doc_chat_id = 11, doc_filename = ''other.txt'',
                    doc_content = ''delta'', doc_upload_date = 4\<rparr>],
      document_chunks =
        [\<lparr>dc_id = 30, dc_chat_id = 10, dc_document_id = 20, dc_chunk_text = ''alpha'',
          dc_chunk_index = 0, dc_embedding = [9]\<rparr>,
         \<lparr>dc_id = 31, dc_chat_id = 11, dc_document_id = 21, dc_chunk_text = ''delta'',
          dc_chunk_index = 0, dc_embedding = [5]\<rparr>,
         \<lparr>dc_id = 32, dc_chat_id = 10, dc_document_id = 20, dc_chunk_text = ''beta'',
          dc_chunk_index = 1, dc_embedding = [4]\<rparr>,
         \<lparr>dc_id = 33, dc_chat_id = 10, dc_document_id = 20, dc_chunk_text = ''gamma'',
          dc_chunk_index = 2, dc_embedding = [7]\<rparr>],
      next_uuid = 100\<rparr>"

text \<open>The state in which the loop of \<^verbatim>\<open>upload_documents\<close> starts.\<close>

definition start_state :: "database \<Rightarrow> upload_state" where
  "start_state db = \<lparr>sess = new_session db, uploaded_docs = [], skipped_docs = []\<rparr>"


section \<open>Evaluating the instances\<close>

lemma strip_replicate_x: "strip (replicate n (CHR ''x'')) = replicate n (CHR ''x'')"
  by (simp add: strip_def isspace_def dropWhile_replicate)

lemma strip_replicate_y: "strip (replicate n (CHR ''y'')) = replicate n (CHR ''y'')"
  by (simp add: strip_def isspace_def dropWhile_replicate)

lemma strip_replicate_a: "strip (replicate n (CHR ''a'')) = replicate n (CHR ''a'')"
  by (simp add: strip_def isspace_def dropWhile_replicate)

lemma canonical_uuid_chat_a: "canonical_uuid chat_a = Some 10"
  by (simp add: canonical_uuid_def chat_a_def hex_digit_def)


lemma l2_distance_single: "l2_distance [a] [b] = line_distance [a] [b]"
  by (simp add: l2_distance_def line_distance_def)

lemma str_nat_0: "str_nat 0 = ''0''"
  by code_simp

lemma length_sixty: "length sixty = 60" by (simp add: sixty_def)
lemma strip_sixty: "strip sixty = sixty" by (simp add: sixty_def strip_replicate_x)
lemma sixty_not_empty: "sixty \<noteq> []" by (simp add: sixty_def)

lemma extract_report_txt: "extract_text demo_env report_txt = Inr (Some sixty)"
  by (simp add: extract_text_def report_txt_def demo_env_def suffix_def sixty_def list_all_iff)

lemma extract_report_txt_failing: "extract_text failing_embedding_env report_txt = Inr (Some sixty)"
  by (simp add: extract_text_def report_txt_def failing_embedding_env_def demo_env_def suffix_def sixty_def list_all_iff)

lemma extract_broken_pdf:
  "extract_text demo_env broken_pdf = Inl (Exception ''Error processing PDF: EOF marker not found'')"
  by (simp add: extract_text_def broken_pdf_def demo_env_def suffix_def process_pdf_def)

lemma chunk_sixty: "chunk_text demo_env doc_processor sixty = Inr [sixty]"
  by (simp add: chunk_text_def demo_env_def single_piece_splitter_def strip_sixty length_sixty sixty_not_empty)

lemma chunk_sixty_failing: "chunk_text failing_embedding_env doc_processor sixty = Inr [sixty]"
  by (simp add: chunk_text_def failing_embedding_env_def demo_env_def single_piece_splitter_def strip_sixty length_sixty sixty_not_empty)

lemma demo_uuid_chat_a: "uuid_UUID demo_env chat_a = Some 10"
  by (simp add: demo_env_def canonical_uuid_chat_a)



lemma extract_notes_txt: "extract_text demo_env notes_txt = Inr (Some (replicate 70 (CHR ''y'')))"
  by (simp add: extract_text_def notes_txt_def demo_env_def suffix_def list_all_iff)

lemma chunk_notes: "chunk_text demo_env doc_processor (replicate 70 (CHR ''y'')) = Inr [replicate 70 (CHR ''y'')]"
  by (simp add: chunk_text_def demo_env_def single_piece_splitter_def strip_replicate_y)

lemma demo_env_fields:
  "model_encode demo_env t = Inr [real (length t)]"
  "utcnow demo_env = 1700000000"
  "model_encode failing_embedding_env t = Inl ''CUDA out of memory''"
  "utcnow failing_embedding_env = 1700000000"
  "uuid_UUID failing_embedding_env = canonical_uuid"
  "http_exception_str demo_env code detail = str_nat code @ '': '' @ detail"
  by (simp_all add: demo_env_def failing_embedding_env_def)

lemma file_names:
  "filename report_txt = ''report.txt''"
  "filename broken_pdf = ''broken.pdf''"
  "filename notes_txt = ''notes.txt''"
  by (simp_all add: report_txt_def broken_pdf_def notes_txt_def)

lemma empty_db_fields:
  "documents empty_db = []" "document_chunks empty_db = []"
  "list_ex (\<lambda>c. chat_id c = 10) (chats empty_db)" "next_uuid empty_db = 100"
  by (simp_all add: empty_db_def)

lemma two_chat_db_fields:
  "list_ex (\<lambda>c. chat_id c = 10) (chats two_chat_db)"
  "map doc_filename (filter (\<lambda>d. doc_chat_id d = 10) (documents two_chat_db)) = [''report.txt'']"
  by (simp_all add: two_chat_db_def)

lemma upload_report_ok:
  "upload_file demo_env 10 [] report_txt (start_state empty_db) =
     (None,
      \<lparr>sess = \<lparr>store = empty_db
                 \<lparr>documents := [\<lparr>doc_id = 100, doc_chat_id = 10, doc_filename = ''report.txt'',
                                 doc_content = sixty, doc_upload_date = 1700000000\<rparr>],
                  document_chunks := [\<lparr>dc_id = 101, dc_chat_id = 10, dc_document_id = 100,
                                       dc_chunk_text = sixty, dc_chunk_index = 0,
                                       dc_embedding = [60]\<rparr>],
                  next_uuid := 102\<rparr>,
               pending = []\<rparr>,
       uploaded_docs = [\<lparr>uploaded_id = 100, uploaded_filename = ''report.txt'', chunks_count = 1\<rparr>],
       skipped_docs = []\<rparr>)"
  by (simp add: upload_file_def extract_report_txt chunk_sixty uuid4_def db_add_def db_commit_def
     start_state_def new_session_def get_embedding_def demo_env_fields file_names empty_db_def
     length_sixty)

lemma upload_notes_ok:
  "upload_file demo_env 10 [] notes_txt
       \<lparr>sess = new_session empty_db, uploaded_docs = [], skipped_docs = []\<rparr> =
     (None,
      \<lparr>sess = \<lparr>store = empty_db
                 \<lparr>documents := [\<lparr>doc_id = 100, doc_chat_id = 10, doc_filename = ''notes.txt'',
                                 doc_content = replicate 70 (CHR ''y''),
                                 doc_upload_date = 1700000000\<rparr>],
                  document_chunks := [\<lparr>dc_id = 101, dc_chat_id = 10, dc_document_id = 100,
                                       dc_chunk_text = replicate 70 (CHR ''y''),
                                       dc_chunk_index = 0, dc_embedding = [70]\<rparr>],
                  next_uuid := 102\<rparr>,
               pending = []\<rparr>,
       uploaded_docs = [\<lparr>uploaded_id = 100, uploaded_filename = ''notes.txt'', chunks_count = 1\<rparr>],
       skipped_docs = []\<rparr>)"
  by (simp add: upload_file_def extract_notes_txt chunk_notes uuid4_def db_add_def db_commit_def
     new_session_def get_embedding_def demo_env_fields file_names empty_db_def)

section \<open>The chunker\<close>

text \<open>
  C8, as the code has it. \<^verbatim>\<open>chunk_text\<close> keeps the pieces of the splitter whose stripped
  length is greater than 50 and drops the others, a piece of exactly 50 stripped
  characters included. So a piece is dropped exactly when its stripped length is at most
  50, and no chunk that is returned has fewer than 50 stripped characters.
\<close>

theorem chunk_text_keeps_longer_than_50:
  assumes "chunk_text env self text = Inr chunks"
  shows "(\<exists>pieces. split_text env (text_splitter self) text = Inr pieces
            \<and> chunks = filter (\<lambda>p. 50 < length (strip p)) pieces
            \<and> (\<forall>p \<in> set pieces. p \<notin> set chunks \<longleftrightarrow> length (strip p) \<le> 50))
         \<and> (\<forall>c \<in> set chunks. \<not> length (strip c) < 50)"
  using assms by (auto simp: chunk_text_def split: sum.splits)

theorem chunk_text_keeps_longer_than_50_witness:
  "chunk_text demo_env doc_processor sixty = Inr [sixty]
   \<and> \<not> length (strip sixty) < 50"
proof -
  have h: "chunk_text demo_env doc_processor sixty = Inr [sixty]"
    by (simp add: chunk_text_def demo_env_def single_piece_splitter_def sixty_def
        strip_replicate_x)
  from chunk_text_keeps_longer_than_50 [OF h]
  have "\<forall>c \<in> set [sixty]. \<not> length (strip c) < 50" by (rule conjunct2)
  then have "\<not> length (strip sixty) < 50" by simp
  with h show ?thesis by (rule conjI)
qed

text \<open>
  C8 as the specification words it fails at a piece of exactly 50 characters: the piece
  is not shorter than 50, and it is dropped.
\<close>

theorem chunk_text_drops_piece_of_50:
  "split_text demo_env (text_splitter doc_processor) (replicate 50 (CHR ''a''))
     = Inr [replicate 50 (CHR ''a'')]
   \<and> \<not> length (strip (replicate 50 (CHR ''a''))) < 50
   \<and> chunk_text demo_env doc_processor (replicate 50 (CHR ''a'')) = Inr []"
  by (simp add: chunk_text_def demo_env_def single_piece_splitter_def strip_replicate_a)



section \<open>Retrieval\<close>

lemma set_joined_rows:
  "r \<in> set (joined_rows db cid) \<Longrightarrow>
     fst r \<in> set (document_chunks db) \<and> dc_chat_id (fst r) = cid
     \<and> snd r \<in> set (documents db) \<and> dc_document_id (fst r) = doc_id (snd r)"
  by (auto simp: joined_rows_def)

lemma similarity_query_rows:
  assumes "similarity_query env db qe A k = Inr rows"
  shows "\<exists>cid. pg_uuid_in env A = Some cid \<and> 0 \<le> k
           \<and> rows = take (nat k) (sort_key row_distance (map (select_row env qe) (joined_rows db cid)))"
  using assms by (auto simp: similarity_query_def split: if_splits option.splits)

lemma similarity_query_sorted:
  assumes "similarity_query env db qe A k = Inr rows"
  shows "sorted (map row_distance rows)"
proof -
  obtain cid where r: "rows = take (nat k) (sort_key row_distance (map (select_row env qe) (joined_rows db cid)))"
    using similarity_query_rows[OF assms] by blast
  have "sorted (take (nat k) (map row_distance (sort_key row_distance (map (select_row env qe) (joined_rows db cid)))))"
    by (rule sorted_wrt_take) simp
  then show ?thesis by (simp add: r take_map)
qed

lemma similarity_query_length:
  assumes "similarity_query env db qe A k = Inr rows"
  shows "int (length rows) \<le> k"
  using similarity_query_rows[OF assms] by auto

lemma similarity_query_source:
  assumes "similarity_query env db qe A k = Inr rows" and "row \<in> set rows"
  shows "\<exists>dc \<in> set (document_chunks db). \<exists>d \<in> set (documents db).
           pg_uuid_in env A = Some (dc_chat_id dc) \<and> dc_document_id dc = doc_id d
           \<and> row = select_row env qe (dc, d)"
proof -
  obtain cid where c: "pg_uuid_in env A = Some cid"
    and r: "rows = take (nat k) (sort_key row_distance (map (select_row env qe) (joined_rows db cid)))"
    using similarity_query_rows[OF assms(1)] by blast
  from assms(2) r have "row \<in> set (sort_key row_distance (map (select_row env qe) (joined_rows db cid)))"
    by (auto dest: in_set_takeD)
  then obtain p where p: "p \<in> set (joined_rows db cid)" and e: "row = select_row env qe p"
    by auto
  from set_joined_rows[OF p] c e show ?thesis
    by (intro bexI[of _ "fst p"] bexI[of _ "snd p"]) auto
qed

lemma sorted_rev_scores:
  "sorted (map row_distance rows) \<Longrightarrow> sorted (rev (map (\<lambda>row. 1 - row_distance row) rows))"
proof (induction rows)
  case Nil
  then show ?case by simp
next
  case (Cons a rows)
  then show ?case by (auto simp: sorted_append)
qed

lemma fallback_chunks_result:
  assumes "fallback_chunks env A db k = Inr rs"
  shows "\<exists>cid. uuid_UUID env A = Some cid \<and> 0 \<le> k
     \<and> rs = map relevant_of_chunk (take (nat k) (filter (\<lambda>dc. dc_chat_id dc = cid) (document_chunks db)))"
  using assms by (auto simp: fallback_chunks_def split: option.splits if_splits)

lemma demo_search_a:
  "similarity_search demo_env ''12345'' chat_a two_chat_db 2 =
     Inr [\<lparr>rc_text = ''beta'', rc_chunk_index = 1, rc_filename = ''report.txt'', rc_similarity_score = 0\<rparr>,
          \<lparr>rc_text = ''gamma'', rc_chunk_index = 2, rc_filename = ''report.txt'', rc_similarity_score = -1\<rparr>]"
  by (simp add: similarity_search_def similarity_query_def get_embedding_def demo_env_def
      canonical_uuid_chat_a joined_rows_def two_chat_db_def select_row_def line_distance_def
      relevant_of_row_def)

lemma demo_relevant_a:
  "get_relevant_chunks demo_env ''12345'' chat_a two_chat_db 2 =
     Inr [\<lparr>rc_text = ''beta'', rc_chunk_index = 1, rc_filename = ''report.txt'', rc_similarity_score = 0\<rparr>,
          \<lparr>rc_text = ''gamma'', rc_chunk_index = 2, rc_filename = ''report.txt'', rc_similarity_score = -1\<rparr>]"
  by (simp add: get_relevant_chunks_def demo_search_a)



text \<open>
  C5. When the similarity search (the \<^verbatim>\<open>try\<close> block) returns, it returns at most \<^verbatim>\<open>top_k\<close>
  results; they are the rows of the statement in the statement's order, which is by
  non-decreasing distance between the stored embedding and the embedding of the query;
  the score of each result is 1 minus the distance of its row, so the scores are
  non-increasing.
\<close>

theorem similarity_search_sorted_bounded:
  assumes "similarity_search env q A db k = Inr rs"
  shows "int (length rs) \<le> k
       \<and> sorted (rev (map rc_similarity_score rs))
       \<and> (\<exists>qe rows. get_embedding env q = Inr qe
            \<and> similarity_query env db qe A k = Inr rows
            \<and> sorted (map row_distance rows)
            \<and> map rc_similarity_score rs = map (\<lambda>row. 1 - row_distance row) rows
            \<and> (\<forall>row \<in> set rows. \<exists>dc \<in> set (document_chunks db).
                  row_distance row = vector_distance env (dc_embedding dc) qe))"
proof -
  from assms obtain qe rows where q: "get_embedding env q = Inr qe"
    and s: "similarity_query env db qe A k = Inr rows"
    and rs: "rs = map relevant_of_row rows"
    by (auto simp: similarity_search_def split: sum.splits)
  have sc: "map rc_similarity_score rs = map (\<lambda>row. 1 - row_distance row) rows"
    by (simp add: rs relevant_of_row_def)
  have so: "sorted (map row_distance rows)" by (rule similarity_query_sorted[OF s])
  have len: "int (length rs) \<le> k" using similarity_query_length[OF s] by (simp add: rs)
  have src: "\<forall>row \<in> set rows. \<exists>dc \<in> set (document_chunks db).
                  row_distance row = vector_distance env (dc_embedding dc) qe"
  proof
    fix row assume "row \<in> set rows"
    from similarity_query_source[OF s this] show "\<exists>dc \<in> set (document_chunks db).
                  row_distance row = vector_distance env (dc_embedding dc) qe"
      by (auto simp: select_row_def)
  qed
  from sorted_rev_scores[OF so] have "sorted (rev (map rc_similarity_score rs))"
    by (simp add: sc)
  with len q s so sc src show ?thesis by blast
qed

theorem similarity_search_sorted_bounded_witness:
  "similarity_search demo_env ''12345'' chat_a two_chat_db 2 =
     Inr [\<lparr>rc_text = ''beta'', rc_chunk_index = 1, rc_filename = ''report.txt'', rc_similarity_score = 0\<rparr>,
          \<lparr>rc_text = ''gamma'', rc_chunk_index = 2, rc_filename = ''report.txt'', rc_similarity_score = -1\<rparr>]
   \<and> sorted (rev [0, -1 :: real])"
proof -
  note h = demo_search_a
  from similarity_search_sorted_bounded [OF h]
  have "sorted (rev [0, -1 :: real])" by simp
  with h show ?thesis by (rule conjI)
qed

text \<open>
  C3. Let the chat identifier \<open>A\<close> denote the chat \<open>cid\<close> for whichever of the two readers
  accepts it. Every element of the list returned by \<^verbatim>\<open>get_relevant_chunks\<close>, on the
  similarity path as on the fallback path, carries the text and the index of a stored
  chunk whose \<^verbatim>\<open>chat_id\<close> is \<open>cid\<close>.
\<close>

theorem get_relevant_chunks_chat_scoped:
  assumes "get_relevant_chunks env q A db k = Inr rs"
    and "pg_uuid_in env A \<in> {None, Some cid}"
    and "uuid_UUID env A \<in> {None, Some cid}"
  shows "\<forall>r \<in> set rs. \<exists>dc \<in> set (document_chunks db). dc_chat_id dc = cid
            \<and> rc_text r = dc_chunk_text dc \<and> rc_chunk_index r = dc_chunk_index dc"
proof
  fix r assume r: "r \<in> set rs"
  show "\<exists>dc \<in> set (document_chunks db). dc_chat_id dc = cid
            \<and> rc_text r = dc_chunk_text dc \<and> rc_chunk_index r = dc_chunk_index dc"
  proof (cases "similarity_search env q A db k")
    case (Inr rs')
    with assms(1) have e: "rs' = rs" by (simp add: get_relevant_chunks_def)
    from Inr obtain qe rows where s: "similarity_query env db qe A k = Inr rows"
      and m: "rs' = map relevant_of_row rows"
      by (auto simp: similarity_search_def split: sum.splits)
    from r e m obtain row where row: "row \<in> set rows" and rr: "r = relevant_of_row row" by auto
    from similarity_query_source[OF s row] assms(2) rr show ?thesis
      by (auto simp: relevant_of_row_def select_row_def)
  next
    case (Inl e)
    with assms(1) have "fallback_chunks env A db k = Inr rs" by (simp add: get_relevant_chunks_def)
    from fallback_chunks_result[OF this] obtain c where c: "uuid_UUID env A = Some c"
      and m: "rs = map relevant_of_chunk (take (nat k) (filter (\<lambda>dc. dc_chat_id dc = c) (document_chunks db)))"
      by blast
    from r m obtain dc where "dc \<in> set (take (nat k) (filter (\<lambda>dc. dc_chat_id dc = c) (document_chunks db)))"
      and rr: "r = relevant_of_chunk dc" by auto
    then have "dc \<in> set (document_chunks db)" "dc_chat_id dc = c" by (auto dest: in_set_takeD)
    with c assms(3) rr show ?thesis by (auto simp: relevant_of_chunk_def)
  qed
qed

theorem get_relevant_chunks_chat_scoped_witness:
  "get_relevant_chunks demo_env ''12345'' chat_a two_chat_db 2 =
     Inr [\<lparr>rc_text = ''beta'', rc_chunk_index = 1, rc_filename = ''report.txt'', rc_similarity_score = 0\<rparr>,
          \<lparr>rc_text = ''gamma'', rc_chunk_index = 2, rc_filename = ''report.txt'', rc_similarity_score = -1\<rparr>]
   \<and> pg_uuid_in demo_env chat_a = Some 10 \<and> uuid_UUID demo_env chat_a = Some 10
   \<and> (\<exists>dc \<in> set (document_chunks two_chat_db). dc_chat_id dc = 10 \<and> ''beta'' = dc_chunk_text dc \<and> 1 = dc_chunk_index dc)"
proof -
  note h = demo_relevant_a
  have p: "pg_uuid_in demo_env chat_a = Some 10" by (simp add: demo_env_def canonical_uuid_chat_a)
  have u: "uuid_UUID demo_env chat_a = Some 10" by (simp add: demo_env_def canonical_uuid_chat_a)
  from get_relevant_chunks_chat_scoped [OF h, of 10] p u
  have "\<exists>dc \<in> set (document_chunks two_chat_db). dc_chat_id dc = 10 \<and> ''beta'' = dc_chunk_text dc \<and> 1 = dc_chunk_index dc"
    by simp
  with h p u show ?thesis by blast
qed

text \<open>
  The same from the other side: the result for chat \<open>cid\<close> is the same in two databases
  that have the same documents and the same chunks of that chat, whatever chunks other
  chats own.
\<close>

lemma joined_rows_cong:
  "documents db' = documents db \<Longrightarrow>
   filter (\<lambda>dc. dc_chat_id dc = cid) (document_chunks db') = filter (\<lambda>dc. dc_chat_id dc = cid) (document_chunks db)
   \<Longrightarrow> joined_rows db' cid = joined_rows db cid"
  by (simp add: joined_rows_def)

lemma get_relevant_chunks_independent:
  assumes "pg_uuid_in env A \<in> {None, Some cid}"
    and "uuid_UUID env A \<in> {None, Some cid}"
    and "documents db' = documents db"
    and "filter (\<lambda>dc. dc_chat_id dc = cid) (document_chunks db') = filter (\<lambda>dc. dc_chat_id dc = cid) (document_chunks db)"
  shows "get_relevant_chunks env q A db' k = get_relevant_chunks env q A db k"
proof -
  have 1: "similarity_query env db' qe A k = similarity_query env db qe A k" for qe
    using assms(1) joined_rows_cong[OF assms(3,4)]
    by (auto simp: similarity_query_def split: option.splits)
  have 2: "fallback_chunks env A db' k = fallback_chunks env A db k"
    using assms(2,4) by (auto simp: fallback_chunks_def split: option.splits)
  show ?thesis by (auto simp: get_relevant_chunks_def similarity_search_def 1 2 split: sum.splits)
qed




section \<open>Uploading documents\<close>

lemma flush_all_chunks:
  "flush_all db (map AddChunk rows) = Inr (db\<lparr>document_chunks := document_chunks db @ rows\<rparr>)"
  by (induction rows arbitrary: db) auto

lemma db_commit_chunks:
  "pending s = map AddChunk rows \<Longrightarrow>
   db_commit s = Inr \<lparr>store = (store s)\<lparr>document_chunks := document_chunks (store s) @ rows\<rparr>, pending = []\<rparr>"
  by (simp add: db_commit_def flush_all_chunks)

lemma db_commit_document:
  "pending s = [] \<Longrightarrow>
   db_commit (db_add s (AddDocument d)) =
     (if 255 < length (doc_filename d)
      then Inl (DBAPIError ''value too long for type character varying(255)'')
      else Inr \<lparr>store = (store s)\<lparr>documents := documents (store s) @ [d]\<rparr>, pending = []\<rparr>)"
  by (simp add: db_commit_def db_add_def)

lemma add_chunks_effect:
  "add_chunks env cid did i cs s = (r, s') \<Longrightarrow>
     \<exists>rows. pending s' = pending s @ map AddChunk rows
       \<and> documents (store s') = documents (store s)
       \<and> document_chunks (store s') = document_chunks (store s)
       \<and> chats (store s') = chats (store s)
       \<and> chat_messages (store s') = chat_messages (store s)
       \<and> next_uuid (store s) \<le> next_uuid (store s')
       \<and> (r = None \<longrightarrow> map dc_chunk_text rows = cs
              \<and> map dc_chunk_index rows = [i ..< i + length cs]
              \<and> (\<forall>c \<in> set rows. dc_document_id c = did \<and> dc_chat_id c = cid))"
proof (induction cs arbitrary: i s)
  case Nil
  then show ?case by (intro exI[of _ "[]"]) auto
next
  case (Cons c cs)
  show ?case
  proof (cases "get_embedding env c")
    case (Inl e)
    with Cons.prems show ?thesis by (intro exI[of _ "[]"]) auto
  next
    case (Inr v)
    let ?row = "\<lparr>dc_id = next_uuid (store s), dc_chat_id = cid, dc_document_id = did,
                 dc_chunk_text = c, dc_chunk_index = i, dc_embedding = v\<rparr>"
    let ?s1 = "db_add (snd (uuid4 s)) (AddChunk ?row)"
    from Cons.prems Inr have "add_chunks env cid did (Suc i) cs ?s1 = (r, s')"
      by (simp add: uuid4_def)
    from Cons.IH[OF this] obtain rows where
      p: "pending s' = pending ?s1 @ map AddChunk rows"
      and d: "documents (store s') = documents (store ?s1)"
        "document_chunks (store s') = document_chunks (store ?s1)"
        "chats (store s') = chats (store ?s1)"
        "chat_messages (store s') = chat_messages (store ?s1)"
        "next_uuid (store ?s1) \<le> next_uuid (store s')"
      and ok: "r = None \<longrightarrow> map dc_chunk_text rows = cs
              \<and> map dc_chunk_index rows = [Suc i ..< Suc i + length cs]
              \<and> (\<forall>c \<in> set rows. dc_document_id c = did \<and> dc_chat_id c = cid)"
      by blast
    show ?thesis
      using p d ok
      by (intro exI[of _ "?row # rows"]) (auto simp: db_add_def uuid4_def upt_rec[of i])
  qed
qed


lemma upload_loop_append:
  "upload_loop env cid ex (xs @ ys) st =
     (case upload_loop env cid ex xs st of
        (None, st') \<Rightarrow> upload_loop env cid ex ys st'
      | (Some e, st') \<Rightarrow> (Some e, st'))"
  by (induction xs arbitrary: st) (auto split: prod.splits option.splits)

lemma upload_file_duplicate:
  "filename file \<in> set ex \<Longrightarrow>
   upload_file env cid ex file st =
     (None, st\<lparr>skipped_docs := skipped_docs st @
        [\<lparr>skipped_filename = filename file, skipped_reason = ''File already exists in this chat''\<rparr>]\<rparr>)"
  by (simp add: upload_file_def)

lemma upload_file_unsupported:
  "filename file \<notin> set ex \<Longrightarrow> extract_text env file = Inr None \<Longrightarrow>
   upload_file env cid ex file st =
     (None, st\<lparr>skipped_docs := skipped_docs st @
        [\<lparr>skipped_filename = filename file, skipped_reason = ''Unsupported file type''\<rparr>]\<rparr>)"
  by (simp add: upload_file_def)

lemma upload_file_extraction_error:
  "filename file \<notin> set ex \<Longrightarrow> extract_text env file = Inl e \<Longrightarrow>
   upload_file env cid ex file st = (Some e, st)"
  by (simp add: upload_file_def)

text \<open>
  The loop keeps nothing pending between two files: an iteration that starts with an
  empty session and ends normally leaves an empty session.
\<close>

lemma upload_file_nothing_pending:
  "pending (sess st) = [] \<Longrightarrow> upload_file env cid ex file st = (None, st') \<Longrightarrow>
   pending (sess st') = []"
  by (auto simp: upload_file_def db_commit_def split: if_splits sum.splits option.splits prod.splits)

lemma upload_loop_nothing_pending:
  "pending (sess st) = [] \<Longrightarrow> upload_loop env cid ex files st = (None, st') \<Longrightarrow>
   pending (sess st') = []"
proof (induction files arbitrary: st)
  case Nil
  then show ?case by simp
next
  case (Cons f fs)
  then show ?case
    by (auto split: prod.splits option.splits dest: upload_file_nothing_pending)
qed


text \<open>
  C1, as the code has it. One iteration of the upload loop, started with nothing pending,
  leaves the committed store in one of three states: no new document and no new chunk;
  or the new document and none of its chunks, and then the iteration has raised; or the
  new document and all the chunks of its text, numbered from 0 in order, and then the
  iteration has ended normally. The document is committed on its own before the first
  embedding is computed, the chunks are committed together after the last one.
\<close>

theorem document_first_then_all_chunks:
  assumes p: "pending (sess st) = []"
    and u: "upload_file env cid ex file st = (r, st')"
  shows "(documents (store (sess st')) = documents (store (sess st))
          \<and> document_chunks (store (sess st')) = document_chunks (store (sess st)))
       \<or> (\<exists>d. documents (store (sess st')) = documents (store (sess st)) @ [d]
             \<and> doc_filename d = filename file \<and> doc_chat_id d = cid
             \<and> ((r \<noteq> None
                   \<and> document_chunks (store (sess st')) = document_chunks (store (sess st)))
                \<or> (r = None
                   \<and> (\<exists>texts rows. chunk_text env doc_processor (doc_content d) = Inr texts
                         \<and> document_chunks (store (sess st')) = document_chunks (store (sess st)) @ rows
                         \<and> map dc_chunk_text rows = texts
                         \<and> map dc_chunk_index rows = [0 ..< length texts]
                         \<and> (\<forall>c \<in> set rows. dc_document_id c = doc_id d \<and> dc_chat_id c = cid)))))"
    (is "?nothing \<or> ?document")
proof (cases "filename file \<in> set ex")
  case True
  with u have ?nothing by (auto simp: upload_file_def)
  then show ?thesis ..
next
  case new: False
  show ?thesis
  proof (cases "extract_text env file")
    case (Inl e)
    with u new have ?nothing by (auto simp: upload_file_def)
    then show ?thesis ..
  next
    case (Inr ot)
    show ?thesis
    proof (cases ot)
      case None
      with u new Inr have ?nothing by (auto simp: upload_file_def)
      then show ?thesis ..
    next
      case (Some t)
      let ?did = "next_uuid (store (sess st))"
      let ?s0 = "(sess st)\<lparr>store := (store (sess st))\<lparr>next_uuid := Suc (next_uuid (store (sess st)))\<rparr>\<rparr>"
      let ?d = "\<lparr>doc_id = ?did, doc_chat_id = cid, doc_filename = filename file,
                 doc_content = t, doc_upload_date = utcnow env\<rparr>"
      have u0: "uuid4 (sess st) = (?did, ?s0)" by (simp add: uuid4_def)
      have p0: "pending ?s0 = []" using p by simp
      have d0: "documents (store ?s0) = documents (store (sess st))"
        "document_chunks (store ?s0) = document_chunks (store (sess st))"
        by simp_all
      note c0 = db_commit_document [OF p0, of ?d]
      show ?thesis
      proof (cases "255 < length (filename file)")
        case True
        with u new Inr Some u0 c0 have "st' = st\<lparr>sess := db_add ?s0 (AddDocument ?d)\<rparr>"
          by (simp add: upload_file_def)
        then have ?nothing using d0 by (simp add: db_add_def)
        then show ?thesis ..
      next
        case short: False
        let ?s1 = "\<lparr>store = (store ?s0)\<lparr>documents := documents (store ?s0) @ [?d]\<rparr>, pending = []\<rparr>"
        from short c0 have c1: "db_commit (db_add ?s0 (AddDocument ?d)) = Inr ?s1" by simp
        have d1: "documents (store ?s1) = documents (store (sess st)) @ [?d]"
          "document_chunks (store ?s1) = document_chunks (store (sess st))"
          using d0 by simp_all
        show ?thesis
        proof (cases "chunk_text env doc_processor t")
          case (Inl e)
          with u new Inr Some u0 c1 have "r = Some e" "st' = st\<lparr>sess := ?s1\<rparr>"
            by (simp_all add: upload_file_def)
          with d1 have ?document by (intro exI[of _ ?d]) simp
          then show ?thesis ..
        next
          case chunks: (Inr cs)
          obtain r2 s2 where a: "add_chunks env cid ?did 0 cs ?s1 = (r2, s2)"
            by (cases "add_chunks env cid ?did 0 cs ?s1")
          from add_chunks_effect [OF a] obtain rows where
            p2: "pending s2 = map AddChunk rows"
            and d2: "documents (store s2) = documents (store ?s1)"
              "document_chunks (store s2) = document_chunks (store ?s1)"
            and ok: "r2 = None \<longrightarrow> map dc_chunk_text rows = cs
              \<and> map dc_chunk_index rows = [0 ..< 0 + length cs]
              \<and> (\<forall>c \<in> set rows. dc_document_id c = ?did \<and> dc_chat_id c = cid)"
            by auto
          show ?thesis
          proof (cases r2)
            case (Some e)
            with u new Inr \<open>ot = Some t\<close> u0 c1 chunks a have "r = Some e" "st' = st\<lparr>sess := s2\<rparr>"
              by (simp_all add: upload_file_def)
            with d1 d2 have ?document by (intro exI[of _ ?d]) simp
            then show ?thesis ..
          next
            case None
            note c2 = db_commit_chunks [OF p2]
            from None u new Inr \<open>ot = Some t\<close> u0 c1 chunks a c2
            have r: "r = None"
              and s: "sess st' = \<lparr>store = (store s2)\<lparr>document_chunks := document_chunks (store s2) @ rows\<rparr>,
                                   pending = []\<rparr>"
              by (auto simp: upload_file_def)
            from None ok have ok': "map dc_chunk_text rows = cs"
              "map dc_chunk_index rows = [0 ..< length cs]"
              "\<forall>c \<in> set rows. dc_document_id c = ?did \<and> dc_chat_id c = cid"
              by simp_all
            have ?document
              using r s d1 d2 ok' chunks by (intro exI[of _ ?d]) auto
            then show ?thesis ..
          qed
        qed
      qed
    qed
  qed
qed

theorem document_first_then_all_chunks_witness:
  "pending (sess (start_state empty_db)) = []
   \<and> fst (upload_file demo_env 10 [] report_txt (start_state empty_db)) = None
   \<and> (\<exists>d rows. documents (store (sess (snd (upload_file demo_env 10 [] report_txt (start_state empty_db)))))
                   = documents (store (sess (start_state empty_db))) @ [d]
         \<and> document_chunks (store (sess (snd (upload_file demo_env 10 [] report_txt (start_state empty_db)))))
                   = document_chunks (store (sess (start_state empty_db))) @ rows
         \<and> map dc_chunk_text rows = [sixty] \<and> map dc_chunk_index rows = [0])"
proof -
  have p: "pending (sess (start_state empty_db)) = []"
    by (simp add: start_state_def new_session_def)
  note e = upload_report_ok
  from document_first_then_all_chunks [OF p e] e chunk_sixty
  have "\<exists>d rows. documents (store (sess (snd (upload_file demo_env 10 [] report_txt (start_state empty_db)))))
                   = documents (store (sess (start_state empty_db))) @ [d]
         \<and> document_chunks (store (sess (snd (upload_file demo_env 10 [] report_txt (start_state empty_db)))))
                   = document_chunks (store (sess (start_state empty_db))) @ rows
         \<and> map dc_chunk_text rows = [sixty] \<and> map dc_chunk_index rows = [0]"
    by (auto simp: start_state_def new_session_def empty_db_def)
  with p e show ?thesis by simp
qed

text \<open>
  C1 as the specification words it fails when an embedding raises: the request ends with
  HTTP 500, the document stays committed, and the one chunk of its text is not stored.
\<close>

theorem document_persisted_without_chunks:
  "chunk_text failing_embedding_env doc_processor sixty = Inr [sixty]
   \<and> fst (upload_documents failing_embedding_env chat_a [report_txt] empty_db)
       = Inl (HTTPException 500 ''Error processing report.txt: CUDA out of memory'')
   \<and> documents (snd (upload_documents failing_embedding_env chat_a [report_txt] empty_db))
       = [\<lparr>doc_id = 100, doc_chat_id = 10, doc_filename = ''report.txt'',
           doc_content = sixty, doc_upload_date = 1700000000\<rparr>]
   \<and> document_chunks (snd (upload_documents failing_embedding_env chat_a [report_txt] empty_db)) = []"
proof -
  have u: "uuid_UUID failing_embedding_env chat_a = Some 10"
    by (simp add: demo_env_fields canonical_uuid_chat_a)
  have f: "upload_file failing_embedding_env 10 [] report_txt
             \<lparr>sess = new_session empty_db, uploaded_docs = [], skipped_docs = []\<rparr> =
     (Some (Exception ''CUDA out of memory''),
      \<lparr>sess = \<lparr>store = empty_db
                 \<lparr>documents := [\<lparr>doc_id = 100, doc_chat_id = 10, doc_filename = ''report.txt'',
                                 doc_content = sixty, doc_upload_date = 1700000000\<rparr>],
                  next_uuid := 101\<rparr>,
               pending = []\<rparr>,
       uploaded_docs = [], skipped_docs = []\<rparr>)"
    by (simp add: upload_file_def extract_report_txt_failing chunk_sixty_failing uuid4_def
          db_add_def db_commit_def new_session_def get_embedding_def demo_env_fields file_names
          empty_db_def)
  have d: "documents empty_db = []" "document_chunks empty_db = []"
    "list_ex (\<lambda>c. chat_id c = 10) (chats empty_db)"
    by (simp_all add: empty_db_def)
  note n = file_names
  show ?thesis
    by (simp add: chunk_sixty_failing upload_documents_def u d f n)
qed

text \<open>
  C6. A file whose name is the filename of a document of the chat is put on the skipped
  list with the reason \<^verbatim>\<open>File already exists in this chat\<close> and nothing else changes:
  the step of the loop leaves the session as it is, and a request with that one file
  returns an empty uploaded list, the one skipped entry and the database unchanged.
\<close>

theorem duplicate_filename_is_skipped:
  assumes "uuid_UUID env chat_id_str = Some cid"
    and "list_ex (\<lambda>c. chat_id c = cid) (chats db)"
    and "\<exists>d \<in> set (documents db). doc_chat_id d = cid \<and> doc_filename d = filename file"
  shows "upload_file env cid
           (map doc_filename (filter (\<lambda>d. doc_chat_id d = cid) (documents db))) file st
         = (None, st\<lparr>skipped_docs := skipped_docs st @
              [\<lparr>skipped_filename = filename file,
                skipped_reason = ''File already exists in this chat''\<rparr>]\<rparr>)
       \<and> upload_documents env chat_id_str [file] db
         = (Inr \<lparr>up_message = ''Successfully uploaded 0 documents'', uploaded = [],
                 skipped = [\<lparr>skipped_filename = filename file,
                             skipped_reason = ''File already exists in this chat''\<rparr>]\<rparr>, db)"
proof -
  from assms(3) have m: "filename file \<in> set (map doc_filename (filter (\<lambda>d. doc_chat_id d = cid) (documents db)))"
    by force
  note s = upload_file_duplicate [OF m]
  show ?thesis
    using assms(1,2) by (simp add: s upload_documents_def new_session_def str_nat_0)
qed

theorem duplicate_filename_is_skipped_witness:
  "uuid_UUID demo_env chat_a = Some 10
   \<and> list_ex (\<lambda>c. chat_id c = 10) (chats two_chat_db)
   \<and> (\<exists>d \<in> set (documents two_chat_db). doc_chat_id d = 10 \<and> doc_filename d = filename report_txt)
   \<and> upload_documents demo_env chat_a [report_txt] two_chat_db
         = (Inr \<lparr>up_message = ''Successfully uploaded 0 documents'', uploaded = [],
                 skipped = [\<lparr>skipped_filename = ''report.txt'',
                             skipped_reason = ''File already exists in this chat''\<rparr>]\<rparr>, two_chat_db)"
proof -
  note u = demo_uuid_chat_a
  note c = two_chat_db_fields(1)
  have d: "\<exists>d \<in> set (documents two_chat_db). doc_chat_id d = 10 \<and> doc_filename d = filename report_txt"
    by (simp add: two_chat_db_def file_names)
  from duplicate_filename_is_skipped [OF u c d]
  have "upload_documents demo_env chat_a [report_txt] two_chat_db
         = (Inr \<lparr>up_message = ''Successfully uploaded 0 documents'', uploaded = [],
                 skipped = [\<lparr>skipped_filename = ''report.txt'',
                             skipped_reason = ''File already exists in this chat''\<rparr>]\<rparr>, two_chat_db)"
    by (simp add: file_names)
  with u c d show ?thesis by blast
qed



text \<open>
  C2, as the code has it. After a prefix of the batch that raised no exception, a file
  that is a duplicate or of an unsupported type is put on the skipped list and the loop
  goes on with the files after it; a file whose text extraction raises ends the loop
  and the request with HTTP 500 naming that file, whatever files follow, and the session
  is the one the earlier files left.
\<close>

theorem skip_continues_exception_aborts:
  assumes "upload_loop env cid ex pre st0 = (None, st1)"
  shows "(filename f \<in> set ex \<longrightarrow>
            upload_loop env cid ex (pre @ f # post) st0 =
              upload_loop env cid ex post (st1\<lparr>skipped_docs := skipped_docs st1 @
                [\<lparr>skipped_filename = filename f,
                  skipped_reason = ''File already exists in this chat''\<rparr>]\<rparr>))
       \<and> (filename f \<notin> set ex \<and> extract_text env f = Inr None \<longrightarrow>
            upload_loop env cid ex (pre @ f # post) st0 =
              upload_loop env cid ex post (st1\<lparr>skipped_docs := skipped_docs st1 @
                [\<lparr>skipped_filename = filename f, skipped_reason = ''Unsupported file type''\<rparr>]\<rparr>))
       \<and> (filename f \<notin> set ex \<and> extract_text env f = Inl e \<longrightarrow>
            upload_loop env cid ex (pre @ f # post) st0 =
              (Some (HTTPException 500 (''Error processing '' @ filename f @ '': '' @ exn_str env e)),
               st1))"
  using assms
  by (simp add: upload_loop_append upload_file_duplicate upload_file_unsupported
      upload_file_extraction_error)

theorem skip_continues_exception_aborts_witness:
  "upload_loop demo_env 10 [''report.txt''] [report_txt] (start_state two_chat_db)
     = (None, (start_state two_chat_db)\<lparr>skipped_docs :=
          [\<lparr>skipped_filename = ''report.txt'',
            skipped_reason = ''File already exists in this chat''\<rparr>]\<rparr>)
   \<and> upload_loop demo_env 10 [''report.txt''] ([report_txt] @ broken_pdf # [notes_txt])
         (start_state two_chat_db)
     = (Some (HTTPException 500
          ''Error processing broken.pdf: Error processing PDF: EOF marker not found''),
        (start_state two_chat_db)\<lparr>skipped_docs :=
          [\<lparr>skipped_filename = ''report.txt'',
            skipped_reason = ''File already exists in this chat''\<rparr>]\<rparr>)"
proof -
  have h: "upload_loop demo_env 10 [''report.txt''] [report_txt] (start_state two_chat_db)
     = (None, (start_state two_chat_db)\<lparr>skipped_docs :=
          [\<lparr>skipped_filename = ''report.txt'',
            skipped_reason = ''File already exists in this chat''\<rparr>]\<rparr>)"
    by (simp add: upload_file_duplicate file_names start_state_def)
  have n: "filename broken_pdf \<notin> set [''report.txt'']" by (simp add: file_names)
  from skip_continues_exception_aborts [OF h, where f = broken_pdf and post = "[notes_txt]"
      and e = "Exception ''Error processing PDF: EOF marker not found''"]
    n extract_broken_pdf
  have "upload_loop demo_env 10 [''report.txt''] ([report_txt] @ broken_pdf # [notes_txt])
         (start_state two_chat_db)
     = (Some (HTTPException 500
          ''Error processing broken.pdf: Error processing PDF: EOF marker not found''),
        (start_state two_chat_db)\<lparr>skipped_docs :=
          [\<lparr>skipped_filename = ''report.txt'',
            skipped_reason = ''File already exists in this chat''\<rparr>]\<rparr>)"
    by (simp add: file_names)
  with h show ?thesis by (rule conjI)
qed

text \<open>
  C2 as the specification words it fails for a batch of a broken PDF followed by a text
  file: the request ends with HTTP 500 for the PDF, no skipped list is returned, and the
  text file, which alone is uploaded without an error, is never processed.
\<close>

theorem extraction_error_aborts_batch:
  "upload_documents demo_env chat_a [broken_pdf, notes_txt] empty_db
     = (Inl (HTTPException 500
          ''Error processing broken.pdf: Error processing PDF: EOF marker not found''), empty_db)
   \<and> map doc_filename (documents (snd (upload_documents demo_env chat_a [notes_txt] empty_db)))
     = [''notes.txt'']"
proof -
  have n: "filename broken_pdf \<notin> set []" by simp
  note b = upload_file_extraction_error [OF n extract_broken_pdf]
  have 1: "upload_documents demo_env chat_a [broken_pdf, notes_txt] empty_db
     = (Inl (HTTPException 500
          ''Error processing broken.pdf: Error processing PDF: EOF marker not found''), empty_db)"
    by (simp add: upload_documents_def demo_uuid_chat_a empty_db_fields b file_names new_session_def)
  have 2: "map doc_filename (documents (snd (upload_documents demo_env chat_a [notes_txt] empty_db)))
     = [''notes.txt'']"
    by (simp add: upload_documents_def demo_uuid_chat_a empty_db_fields upload_notes_ok)
  from 1 2 show ?thesis by (rule conjI)
qed

section \<open>Querying\<close>





end
